theory Spec2Isabelle
  imports Main "HOL-Library.AList"
begin

section \<open>Data model\<close>

text \<open>
  The controller works on \<^verbatim>\<open>unstructured.Unstructured\<close> objects: the field
  \<^verbatim>\<open>Object\<close> is a \<^verbatim>\<open>map[string]interface{}\<close> holding decoded JSON. A map is an
  association list read with \<open>map_of\<close> and written with \<open>AList.update\<close>. In
  decoded JSON an integer is an \<^verbatim>\<open>int64\<close> (\<open>JInt\<close>).
\<close>

datatype jvalue =
    JNull
  | JBool bool
  | JInt int
  | JStr string
  | JList "jvalue list"
  | JMap "(string \<times> jvalue) list"

type_synonym jobject = "(string \<times> jvalue) list"

text \<open>
  A value that Go code builds itself and hands over as \<^verbatim>\<open>interface{}\<close>. Here
  the dynamic type matters: an untyped integer constant put into an
  \<^verbatim>\<open>interface{}\<close> is a Go \<^verbatim>\<open>int\<close> (\<open>GoInt\<close>), which is not one of the types of
  decoded JSON; \<open>GoInt64\<close> is an \<^verbatim>\<open>int64\<close>.
\<close>

datatype govalue =
    GoNil
  | GoBool bool
  | GoInt int
  | GoInt64 int
  | GoString string
  | GoSlice "govalue list"
  | GoMap "(string \<times> govalue) list"

text \<open>
  The reason carried by an API status error (\<^verbatim>\<open>metav1.StatusReason\<close>); only the
  reasons the record store's interface names are listed, \<open>StatusReasonUnknown\<close>
  standing for every reason the library does not know.
\<close>

datatype status_reason =
    StatusReasonNotFound
  | StatusReasonConflict
  | StatusReasonForbidden
  | StatusReasonServiceUnavailable
  | StatusReasonUnknown

text \<open>
  A Go \<^verbatim>\<open>error\<close> is a status error of the API client (reason and HTTP code), an
  error wrapping another one, or the result of \<^verbatim>\<open>fmt.Errorf\<close> with \<^verbatim>\<open>%v\<close>, kept
  as the format string with its arguments. The same arguments serve
  \<^verbatim>\<open>log.Printf\<close>.
\<close>

datatype error =
    StatusError status_reason nat
  | Wrapped string error
  | Errorf string "fmtarg list"
and fmtarg =
    ArgStr string
  | ArgNat nat
  | ArgErr error
  | ArgMap "(string \<times> jvalue) list"
  | ArgPath "string list"

text \<open>
  Everything the process does to the outside, in the order it happens: log lines,
  calls of the dynamic client and the sleep between two cycles. \<open>CallList None\<close> is
  the listing over all namespaces, \<open>CallList (Some ns)\<close> the listing of one.
\<close>

datatype action =
    LogPrintln string
  | LogPrintf string "fmtarg list"
  | LogFatalf string "fmtarg list"
  | CallList "string option"
  | CallUpdateStatus string jobject
  | CallSleep nat

text \<open>
  The outside world has a state of type \<open>'s\<close> (the record store, the clock). The
  \<^verbatim>\<open>dynamic.Interface\<close> and the clock are operations on it; what they answer is
  not decided by this program, so they are parameters.
\<close>

record 's env =
  ListAll :: "'s \<Rightarrow> (error + jobject list) \<times> 's"
  ListNamespace :: "string \<Rightarrow> 's \<Rightarrow> (error + jobject list) \<times> 's"
  UpdateStatus :: "string \<Rightarrow> jobject \<Rightarrow> 's \<Rightarrow> (error + jobject) \<times> 's"
  Now :: "'s \<Rightarrow> string \<times> 's"
  Sleep :: "nat \<Rightarrow> 's \<Rightarrow> 's"

record 's run =
  world :: 's
  trace :: "action list"

text \<open>
  How a piece of the program ends: it returns a value, it panics (nothing in
  main.go recovers, so a panic ends the process), or it exits the process with a
  status. Each keeps the run up to that point.
\<close>

datatype ('a, 's) outcome =
    Returned 'a "'s run"
  | Panicked string "'s run"
  | Exited nat "'s run"

fun final :: "('a, 's) outcome \<Rightarrow> 's run" where
  "final (Returned x r) = r"
| "final (Panicked msg r) = r"
| "final (Exited n r) = r"

fun returned :: "('a, 's) outcome \<Rightarrow> 'a option" where
  "returned (Returned x r) = Some x"
| "returned (Panicked msg r) = None"
| "returned (Exited n r) = None"

fun panic_of :: "('a, 's) outcome \<Rightarrow> string option" where
  "panic_of (Returned x r) = None"
| "panic_of (Panicked msg r) = Some msg"
| "panic_of (Exited n r) = None"

definition emit :: "action \<Rightarrow> 's run \<Rightarrow> 's run" where
  "emit a r = r\<lparr>trace := trace r @ [a]\<rparr>"

definition call :: "('s \<Rightarrow> 'a \<times> 's) \<Rightarrow> 's run \<Rightarrow> 'a \<times> 's run" where
  "call f r = (case f (world r) of (x, w) \<Rightarrow> (x, r\<lparr>world := w\<rparr>))"

section \<open>Library operations used by the controller\<close>

text \<open>
  \<^verbatim>\<open>errors.IsNotFound\<close>: looks through wrapping for a status error and is true
  when its reason is NotFound, or when its reason is not a known one and its code is
  404.
\<close>

fun IsNotFound :: "error \<Rightarrow> bool" where
  "IsNotFound (StatusError reason code) =
     (reason = StatusReasonNotFound \<or> (reason = StatusReasonUnknown \<and> code = 404))"
| "IsNotFound (Wrapped msg err) = IsNotFound err"
| "IsNotFound (Errorf f as) = False"

text \<open>
  \<^verbatim>\<open>runtime.DeepCopyJSONValue\<close>: copies maps and slices element by element and
  accepts strings, \<^verbatim>\<open>int64\<close>, booleans and nil; for a value of any other type,
  a Go \<^verbatim>\<open>int\<close> among them, it panics with \<^verbatim>\<open>cannot deep copy int\<close>. \<open>Inl\<close>
  is the panic with its message.
\<close>

fun DeepCopyJSONValue :: "govalue \<Rightarrow> string + jvalue"
  and DeepCopyJSONSlice :: "govalue list \<Rightarrow> string + jvalue list"
  and DeepCopyJSONMap :: "(string \<times> govalue) list \<Rightarrow> string + (string \<times> jvalue) list" where
  "DeepCopyJSONValue GoNil = Inr JNull"
| "DeepCopyJSONValue (GoBool b) = Inr (JBool b)"
| "DeepCopyJSONValue (GoInt i) = Inl ''cannot deep copy int''"
| "DeepCopyJSONValue (GoInt64 i) = Inr (JInt i)"
| "DeepCopyJSONValue (GoString s) = Inr (JStr s)"
| "DeepCopyJSONValue (GoSlice xs) =
     (case DeepCopyJSONSlice xs of Inl msg \<Rightarrow> Inl msg | Inr ys \<Rightarrow> Inr (JList ys))"
| "DeepCopyJSONValue (GoMap m) =
     (case DeepCopyJSONMap m of Inl msg \<Rightarrow> Inl msg | Inr m' \<Rightarrow> Inr (JMap m'))"
| "DeepCopyJSONSlice [] = Inr []"
| "DeepCopyJSONSlice (x # xs) =
     (case DeepCopyJSONValue x of
        Inl msg \<Rightarrow> Inl msg
      | Inr y \<Rightarrow> (case DeepCopyJSONSlice xs of Inl msg \<Rightarrow> Inl msg | Inr ys \<Rightarrow> Inr (y # ys)))"
| "DeepCopyJSONMap [] = Inr []"
| "DeepCopyJSONMap ((k, x) # m) =
     (case DeepCopyJSONValue x of
        Inl msg \<Rightarrow> Inl msg
      | Inr y \<Rightarrow> (case DeepCopyJSONMap m of Inl msg \<Rightarrow> Inl msg | Inr m' \<Rightarrow> Inr ((k, y) # m')))"

text \<open>
  The accessors of package \<^verbatim>\<open>unstructured\<close>. Each returns the three Go results
  (value, found, error). A missing field is \<open>(_, False, None)\<close>; a level that is
  not a map on the way is an error. \<^verbatim>\<open>NestedMap\<close> hands back a deep copy of the
  map it finds; the map is decoded JSON, whose copy cannot panic and equals the
  original.
\<close>

fun NestedFieldNoCopy :: "jvalue \<Rightarrow> string list \<Rightarrow> jvalue \<times> bool \<times> error option" where
  "NestedFieldNoCopy val [] = (val, True, None)"
| "NestedFieldNoCopy JNull (field # flds) = (JNull, False, None)"
| "NestedFieldNoCopy (JMap m) (field # flds) =
     (case map_of m field of
        None \<Rightarrow> (JNull, False, None)
      | Some v \<Rightarrow> NestedFieldNoCopy v flds)"
| "NestedFieldNoCopy val (field # flds) =
     (JNull, False,
      Some (Errorf ''%v accessor error: %v is of the type %T, expected map[string]interface{}'' []))"

definition NestedString :: "jobject \<Rightarrow> string list \<Rightarrow> string \<times> bool \<times> error option" where
  "NestedString obj flds =
     (case NestedFieldNoCopy (JMap obj) flds of
        (val, found, err) \<Rightarrow>
          if \<not> found \<or> err \<noteq> None then ('''', found, err)
          else (case val of
                  JStr s \<Rightarrow> (s, True, None)
                | _ \<Rightarrow> ('''', False,
                         Some (Errorf ''%v accessor error: %v is of the type %T, expected string'' []))))"

definition NestedMap :: "jobject \<Rightarrow> string list \<Rightarrow> jobject \<times> bool \<times> error option" where
  "NestedMap obj flds =
     (case NestedFieldNoCopy (JMap obj) flds of
        (val, found, err) \<Rightarrow>
          if \<not> found \<or> err \<noteq> None then ([], found, err)
          else (case val of
                  JMap m \<Rightarrow> (m, True, None)
                | _ \<Rightarrow> ([], False,
                         Some (Errorf ''%v accessor error: %v is of the type %T, expected map[string]interface{}'' []))))"

definition getNestedString :: "jobject \<Rightarrow> string list \<Rightarrow> string" where
  "getNestedString obj flds =
     (case NestedString obj flds of
        (val, found, err) \<Rightarrow> if \<not> found \<or> err \<noteq> None then '''' else val)"

definition GetName :: "jobject \<Rightarrow> string" where
  "GetName obj = getNestedString obj [''metadata'', ''name'']"

definition GetNamespace :: "jobject \<Rightarrow> string" where
  "GetNamespace obj = getNestedString obj [''metadata'', ''namespace'']"

text \<open>
  \<^verbatim>\<open>setNestedFieldNoCopy(obj, value, fields...)\<close>: walks all fields but the last,
  entering the map found there, creating an empty map where the field is missing,
  and failing where the field holds something that is not a map; then stores the
  value under the last field. Go mutates \<open>obj\<close> in place; the model returns the new
  object. The path walked so far is kept for the error message.
\<close>

fun setNestedFieldNoCopy ::
  "string list \<Rightarrow> jobject \<Rightarrow> jvalue \<Rightarrow> string list \<Rightarrow> error + jobject" where
  "setNestedFieldNoCopy seen m val [] =
     Inl (Errorf ''slice bounds out of range'' [])"
| "setNestedFieldNoCopy seen m val [field] = Inr (AList.update field val m)"
| "setNestedFieldNoCopy seen m val (field # flds) =
     (case map_of m field of
        Some (JMap valMap) \<Rightarrow>
          (case setNestedFieldNoCopy (seen @ [field]) valMap val flds of
             Inl err \<Rightarrow> Inl err
           | Inr valMap' \<Rightarrow> Inr (AList.update field (JMap valMap') m))
      | Some other \<Rightarrow>
          Inl (Errorf ''value cannot be set because %v is not a map[string]interface{}''
                 [ArgPath (seen @ [field])])
      | None \<Rightarrow>
          (case setNestedFieldNoCopy (seen @ [field]) [] val flds of
             Inl err \<Rightarrow> Inl err
           | Inr newVal \<Rightarrow> Inr (AList.update field (JMap newVal) m)))"

text \<open>
  \<^verbatim>\<open>unstructured.SetNestedSlice(obj, value, fields...)\<close> is
  \<^verbatim>\<open>SetNestedField\<close>, that is
  \<^verbatim>\<open>setNestedFieldNoCopy(obj, runtime.DeepCopyJSONValue(value), fields...)\<close>: the
  argument is copied first, so a panic of the copy comes before the object is looked
  at or changed. The outer \<open>Inl\<close> is the panic, the inner one the returned error.
\<close>

definition SetNestedSlice ::
  "jobject \<Rightarrow> govalue list \<Rightarrow> string list \<Rightarrow> string + (error + jobject)" where
  "SetNestedSlice obj val flds =
     (case DeepCopyJSONValue (GoSlice val) of
        Inl msg \<Rightarrow> Inl msg
      | Inr v \<Rightarrow> Inr (setNestedFieldNoCopy [] obj v flds))"

section \<open>The controller (main.go)\<close>

subsection \<open>queryCRDs\<close>

fun queryCRDs_items :: "jobject list \<Rightarrow> 's run \<Rightarrow> 's run" where
  "queryCRDs_items [] r = r"
| "queryCRDs_items (item # items) r =
     (let name = GetName item;
          namespace = GetNamespace item;
          r1 = emit (LogPrintf ''CRD: %s in namespace: %s'' [ArgStr name, ArgStr namespace]) r;
          r2 = (case NestedMap item [''spec''] of
                  (spec, found, err) \<Rightarrow>
                    if err = None \<and> found
                    then emit (LogPrintf ''  Spec: %+v'' [ArgMap spec]) r1 else r1);
          r3 = (case NestedMap item [''status''] of
                  (status, found, err) \<Rightarrow>
                    if err = None \<and> found
                    then emit (LogPrintf ''  Status: %+v'' [ArgMap status]) r2 else r2)
      in queryCRDs_items items r3)"

definition queryCRDs :: "'s env \<Rightarrow> 's run \<Rightarrow> error option \<times> 's run" where
  "queryCRDs client r =
     (let r1 = emit (LogPrintln ''Querying CRDs in all namespaces...'') r
      in case call (ListAll client) (emit (CallList None) r1) of
           (Inl err, r2) \<Rightarrow>
             if IsNotFound err
             then (None, emit (LogPrintln ''CRD not found - it may not be installed yet'') r2)
             else (Some (Errorf ''failed to list CRDs: %v'' [ArgErr err]), r2)
         | (Inr items, r2) \<Rightarrow>
             (None,
              queryCRDs_items items
                (emit (LogPrintf ''Found %d CRDs across all namespaces'' [ArgNat (length items)]) r2)))"

subsection \<open>queryCRDsInNamespace\<close>

fun queryCRDsInNamespace_items :: "jobject list \<Rightarrow> 's run \<Rightarrow> 's run" where
  "queryCRDsInNamespace_items [] r = r"
| "queryCRDsInNamespace_items (item # items) r =
     (let name = GetName item
      in queryCRDsInNamespace_items items (emit (LogPrintf ''CRD: %s'' [ArgStr name]) r))"

definition queryCRDsInNamespace :: "'s env \<Rightarrow> string \<Rightarrow> 's run \<Rightarrow> error option \<times> 's run" where
  "queryCRDsInNamespace client namespace r =
     (let r1 = emit (LogPrintf ''Querying CRDs in namespace: %s'' [ArgStr namespace]) r
      in case call (ListNamespace client namespace) (emit (CallList (Some namespace)) r1) of
           (Inl err, r2) \<Rightarrow>
             if IsNotFound err
             then (None, emit (LogPrintf ''No CRDs found in namespace %s'' [ArgStr namespace]) r2)
             else (Some (Errorf ''failed to list CRDs in namespace %s: %v''
                           [ArgStr namespace, ArgErr err]), r2)
         | (Inr items, r2) \<Rightarrow>
             (None,
              queryCRDsInNamespace_items items
                (emit (LogPrintf ''Found %d CRDs in namespace: %s''
                         [ArgNat (length items), ArgStr namespace]) r2)))"

subsection \<open>updateCRDWithFileInfo\<close>

text \<open>
  The slice built for every item (main.go, lines 194 to 203). \<open>12345\<close> and \<open>1024\<close>
  are untyped constants, so the map holds them as Go \<^verbatim>\<open>int\<close>. The only part that
  is not a constant is \<open>modTime\<close>, the clock reading formatted as RFC 3339.
\<close>

definition fileInfo :: "string \<Rightarrow> govalue list" where
  "fileInfo now =
     [GoMap [(''name'', GoString ''example.txt''),
             (''inode'', GoInt 12345),
             (''size'', GoInt 1024),
             (''modTime'', GoString now),
             (''path'', GoString ''/tmp/example.txt''),
             (''isDir'', GoBool False)]]"

text \<open>
  The loop over \<^verbatim>\<open>list.Items\<close>. Both failure branches log and \<^verbatim>\<open>continue\<close>; a
  panic of \<^verbatim>\<open>SetNestedSlice\<close> ends the loop where it stands.
  \<^verbatim>\<open>SetNestedSlice\<close> writes into \<^verbatim>\<open>item.Object\<close>, a map shared with
  \<^verbatim>\<open>list.Items\<close>: the first component of the result is \<^verbatim>\<open>list.Items\<close> as the
  loop leaves it in memory.
\<close>

fun updateCRDWithFileInfo_items ::
  "'s env \<Rightarrow> string \<Rightarrow> jobject list \<Rightarrow> 's run \<Rightarrow> jobject list \<times> (unit, 's) outcome" where
  "updateCRDWithFileInfo_items client namespace [] r = ([], Returned () r)"
| "updateCRDWithFileInfo_items client namespace (item # items) r =
     (let name = GetName item;
          r1 = emit (LogPrintf ''Updating CRD: %s'' [ArgStr name]) r
      in case call (Now client) r1 of
           (now, r2) \<Rightarrow>
             (case SetNestedSlice item (fileInfo now) [''status'', ''files''] of
                Inl msg \<Rightarrow> (item # items, Panicked msg r2)
              | Inr (Inl err) \<Rightarrow>
                  (case updateCRDWithFileInfo_items client namespace items
                          (emit (LogPrintf ''Failed to set file info for CRD %s: %v''
                                   [ArgStr name, ArgErr err]) r2) of
                     (objs, out) \<Rightarrow> (item # objs, out))
              | Inr (Inr item') \<Rightarrow>
                  (case call (UpdateStatus client namespace item')
                          (emit (CallUpdateStatus namespace item') r2) of
                     (Inl err, r3) \<Rightarrow>
                       (case updateCRDWithFileInfo_items client namespace items
                               (emit (LogPrintf ''Failed to update CRD %s: %v''
                                        [ArgStr name, ArgErr err]) r3) of
                          (objs, out) \<Rightarrow> (item' # objs, out))
                   | (Inr updated, r3) \<Rightarrow>
                       (case updateCRDWithFileInfo_items client namespace items
                               (emit (LogPrintf ''Successfully updated CRD: %s''
                                        [ArgStr name]) r3) of
                          (objs, out) \<Rightarrow> (item' # objs, out)))))"

definition updateCRDWithFileInfo ::
  "'s env \<Rightarrow> string \<Rightarrow> 's run \<Rightarrow> (error option, 's) outcome" where
  "updateCRDWithFileInfo client namespace r =
     (let r1 = emit (LogPrintf ''Updating CRDs with file information in namespace: %s''
                       [ArgStr namespace]) r
      in case call (ListNamespace client namespace) (emit (CallList (Some namespace)) r1) of
           (Inl err, r2) \<Rightarrow>
             if IsNotFound err
             then Returned None (emit (LogPrintf ''No CRDs found to update in namespace %s''
                                         [ArgStr namespace]) r2)
             else Returned (Some (Errorf ''failed to list CRDs for update: %v'' [ArgErr err])) r2
         | (Inr items, r2) \<Rightarrow>
             (case snd (updateCRDWithFileInfo_items client namespace items r2) of
                Returned u r3 \<Rightarrow> Returned None r3
              | Panicked msg r3 \<Rightarrow> Panicked msg r3
              | Exited n r3 \<Rightarrow> Exited n r3))"

subsection \<open>main\<close>

text \<open>
  One pass through the body of the \<^verbatim>\<open>for\<close> loop of \<^verbatim>\<open>main\<close>: the three calls,
  each returned error only logged, then the sleep of 30 seconds. A panic in
  \<^verbatim>\<open>updateCRDWithFileInfo\<close> is not recovered: the pass ends there, with no sleep.
\<close>

definition main_cycle :: "'s env \<Rightarrow> 's run \<Rightarrow> (unit, 's) outcome" where
  "main_cycle client r =
     (let r0 = emit (LogPrintln ''Querying CRDs...'') r;
          r1 = (case queryCRDs client r0 of
                  (Some err, r') \<Rightarrow> emit (LogPrintf ''Error querying CRDs: %v'' [ArgErr err]) r'
                | (None, r') \<Rightarrow> r');
          namespace = ''default'';
          r2 = (case queryCRDsInNamespace client namespace r1 of
                  (Some err, r') \<Rightarrow>
                    emit (LogPrintf ''Error querying CRDs in namespace %s: %v''
                            [ArgStr namespace, ArgErr err]) r'
                | (None, r') \<Rightarrow> r')
      in case updateCRDWithFileInfo client namespace r2 of
           Returned res r' \<Rightarrow>
             (let r3 = (case res of
                          Some err \<Rightarrow>
                            emit (LogPrintf ''Error updating CRD with file info: %v''
                                    [ArgErr err]) r'
                        | None \<Rightarrow> r')
              in Returned () ((emit (CallSleep 30) r3)\<lparr>world := Sleep client 30 (world r3)\<rparr>))
         | Panicked msg r' \<Rightarrow> Panicked msg r'
         | Exited n r' \<Rightarrow> Exited n r')"

text \<open>
  The loop has no exit of its own. \<open>main_loop client n\<close> runs up to \<open>n\<close> passes:
  \<open>Returned\<close> says all \<open>n\<close> passes were completed and the loop goes on, \<open>Panicked\<close>
  that the process ended in a pass.
\<close>

fun main_loop :: "'s env \<Rightarrow> nat \<Rightarrow> 's run \<Rightarrow> (unit, 's) outcome" where
  "main_loop client 0 r = Returned () r"
| "main_loop client (Suc n) r =
     (case main_cycle client r of
        Returned u r' \<Rightarrow> main_loop client n r'
      | Panicked msg r' \<Rightarrow> Panicked msg r'
      | Exited k r' \<Rightarrow> Exited k r')"

text \<open>
  \<^verbatim>\<open>main\<close>: when the clients cannot be initialised the process logs and exits
  with status 1 (\<^verbatim>\<open>log.Fatalf\<close>), otherwise it loops. The result of
  \<^verbatim>\<open>initKubernetesClients\<close> is a parameter.
\<close>

definition main :: "error option \<Rightarrow> 's env \<Rightarrow> nat \<Rightarrow> 's run \<Rightarrow> (unit, 's) outcome" where
  "main init client n r =
     (case init of
        Some err \<Rightarrow>
          Exited 1 (emit (LogFatalf ''Failed to initialize Kubernetes clients: %v'' [ArgErr err]) r)
      | None \<Rightarrow> main_loop client n r)"

section \<open>Reading a run\<close>

text \<open>
  The status updates submitted, in order, as (namespace, object) pairs, and the
  actions performed between two points of a run.
\<close>

fun update_calls :: "action list \<Rightarrow> (string \<times> jobject) list" where
  "update_calls [] = []"
| "update_calls (CallUpdateStatus ns obj # tr) = (ns, obj) # update_calls tr"
| "update_calls (a # tr) = update_calls tr"

fun list_calls :: "action list \<Rightarrow> string option list" where
  "list_calls [] = []"
| "list_calls (CallList ns # tr) = ns # list_calls tr"
| "list_calls (a # tr) = list_calls tr"

fun sleeps :: "action list \<Rightarrow> nat list" where
  "sleeps [] = []"
| "sleeps (CallSleep n # tr) = n # sleeps tr"
| "sleeps (a # tr) = sleeps tr"

fun started :: "action list \<Rightarrow> string list" where
  "started [] = []"
| "started (LogPrintf f as # tr) =
     (if f = ''Updating CRD: %s''
      then (case as of [ArgStr name] \<Rightarrow> name # started tr | _ \<Rightarrow> started tr)
      else started tr)"
| "started (a # tr) = started tr"

definition performed :: "'s run \<Rightarrow> 's run \<Rightarrow> action list" where
  "performed r r' = drop (length (trace r)) (trace r')"

definition start :: "'s \<Rightarrow> 's run" where
  "start w = \<lparr> world = w, trace = [] \<rparr>"

section \<open>A record store to run the controller on\<close>

text \<open>
  A FileMonitor object as the README shows it, and an in-memory store of such
  objects standing for the API server: listing can be made to fail, a status update
  can be rejected per object, the clock shows a fixed time. An accepted status update
  replaces the \<open>status\<close> of the stored object of that name and namespace.
\<close>

definition monitor :: "string \<Rightarrow> string \<Rightarrow> string \<Rightarrow> jobject" where
  "monitor name namespace path =
     [(''apiVersion'', JStr ''sentinalfs.io/v1''),
      (''kind'', JStr ''FileMonitor''),
      (''metadata'', JMap [(''name'', JStr name), (''namespace'', JStr namespace)]),
      (''spec'', JMap [(''path'', JStr path), (''namespace'', JStr namespace)])]"

definition store_status :: "string \<Rightarrow> jobject \<Rightarrow> jobject \<Rightarrow> jobject" where
  "store_status namespace obj old =
     (if GetName old = GetName obj \<and> GetNamespace old = namespace
      then (case map_of obj ''status'' of
              Some st \<Rightarrow> AList.update ''status'' st old
            | None \<Rightarrow> old)
      else old)"

definition fake_client ::
  "error option \<Rightarrow> (jobject \<Rightarrow> error option) \<Rightarrow> string \<Rightarrow> (jobject list) env" where
  "fake_client list_err reject now =
     \<lparr> ListAll = (\<lambda>w. (case list_err of Some e \<Rightarrow> Inl e | None \<Rightarrow> Inr w, w)),
       ListNamespace = (\<lambda>namespace w.
         (case list_err of
            Some e \<Rightarrow> Inl e
          | None \<Rightarrow> Inr (filter (\<lambda>obj. GetNamespace obj = namespace) w), w)),
       UpdateStatus = (\<lambda>namespace obj w.
         (case reject obj of
            Some e \<Rightarrow> (Inl e, w)
          | None \<Rightarrow> (Inr obj, map (store_status namespace obj) w))),
       Now = (\<lambda>w. (now, w)),
       Sleep = (\<lambda>n w. w) \<rparr>"

section \<open>Auxiliary definitions\<close>

text \<open>
  A run that continues another, and the points of a cycle after each of its first
  two calls, with their errors logged as \<^verbatim>\<open>main\<close> does.
\<close>

definition extends :: "'s run \<Rightarrow> 's run \<Rightarrow> bool" where
  "extends r r' = (take (length (trace r)) (trace r') = trace r \<and> length (trace r) \<le> length (trace r'))"

definition after_queryCRDs :: "'s env \<Rightarrow> 's run \<Rightarrow> 's run" where
  "after_queryCRDs c r =
     (case queryCRDs c (emit (LogPrintln ''Querying CRDs...'') r) of
        (Some err, r') \<Rightarrow> emit (LogPrintf ''Error querying CRDs: %v'' [ArgErr err]) r'
      | (None, r') \<Rightarrow> r')"

definition after_queryCRDsInNamespace :: "'s env \<Rightarrow> 's run \<Rightarrow> 's run" where
  "after_queryCRDsInNamespace c r =
     (case queryCRDsInNamespace c ''default'' (after_queryCRDs c r) of
        (Some err, r') \<Rightarrow>
          emit (LogPrintf ''Error querying CRDs in namespace %s: %v''
                  [ArgStr ''default'', ArgErr err]) r'
      | (None, r') \<Rightarrow> r')"

section \<open>Properties of the program\<close>

lemma trace_emit [simp]: "trace (emit a r) = trace r @ [a]"
  by (simp add: emit_def)

lemma world_emit [simp]: "world (emit a r) = world r"
  by (simp add: emit_def)

lemma call_eq: "call f r = (fst (f (world r)), r\<lparr>world := snd (f (world r))\<rparr>)"
  by (simp add: call_def split: prod.split)

lemma update_calls_append [simp]: "update_calls (xs @ ys) = update_calls xs @ update_calls ys"
  by (induction xs rule: update_calls.induct) simp_all

lemma list_calls_append [simp]: "list_calls (xs @ ys) = list_calls xs @ list_calls ys"
  by (induction xs rule: list_calls.induct) simp_all

lemma sleeps_append [simp]: "sleeps (xs @ ys) = sleeps xs @ sleeps ys"
  by (induction xs rule: sleeps.induct) simp_all

lemma started_append [simp]: "started (xs @ ys) = started xs @ started ys"
  by (induction xs rule: started.induct) (simp_all split: list.splits fmtarg.splits)

lemma performed_append: "trace r' = trace r @ tr \<Longrightarrow> performed r r' = tr"
  by (simp add: performed_def)

lemma extendsI: "trace r' = trace r @ tr \<Longrightarrow> extends r r'"
  by (simp add: extends_def)

lemma extends_refl [simp]: "extends r r"
  by (simp add: extends_def)

lemma extends_split: "extends r r' \<Longrightarrow> trace r' = trace r @ performed r r'"
  unfolding extends_def performed_def by (metis append_take_drop_id)

lemma extends_trans: "extends r r' \<Longrightarrow> extends r' r'' \<Longrightarrow> extends r r''"
  by (metis append_assoc extendsI extends_split)

lemma extends_emit [simp]: "extends r (emit a r)"
  by (rule extendsI[of _ _ "[a]"]) simp

lemma extends_emit_right: "extends r r' \<Longrightarrow> extends r (emit a r')"
  by (rule extends_trans[OF _ extends_emit])

lemma extends_world [simp]: "extends r (r'\<lparr>world := w\<rparr>) = extends r r'"
  by (simp add: extends_def)

lemma update_calls_performed:
  "extends r r' \<Longrightarrow> update_calls (trace r') = update_calls (trace r) @ update_calls (performed r r')"
  by (drule extends_split) (metis update_calls_append)

lemma started_performed:
  "extends r r' \<Longrightarrow> started (trace r') = started (trace r) @ started (performed r r')"
  by (drule extends_split) (metis started_append)

lemma list_calls_performed:
  "extends r r' \<Longrightarrow> list_calls (trace r') = list_calls (trace r) @ list_calls (performed r r')"
  by (drule extends_split) (metis list_calls_append)

text \<open>The slice of main.go cannot be copied, so setting it panics for every object.\<close>

lemma DeepCopyJSONSlice_fileInfo:
  "DeepCopyJSONSlice (fileInfo now) = Inl ''cannot deep copy int''"
  by (simp add: fileInfo_def)

lemma SetNestedSlice_fileInfo:
  "SetNestedSlice item (fileInfo now) flds = Inl ''cannot deep copy int''"
  by (simp add: SetNestedSlice_def DeepCopyJSONSlice_fileInfo)

lemma items_Cons:
  "updateCRDWithFileInfo_items c ns (item # items) r =
     (item # items,
      Panicked ''cannot deep copy int''
        ((emit (LogPrintf ''Updating CRD: %s'' [ArgStr (GetName item)]) r)
           \<lparr>world := snd (Now c (world r))\<rparr>))"
  by (simp add: Let_def call_eq SetNestedSlice_fileInfo)

declare updateCRDWithFileInfo_items.simps(2) [simp del]

text \<open>\<open>updateCRDWithFileInfo\<close> by the answer of its listing.\<close>

lemma updateCRDWithFileInfo_not_listed:
  assumes "fst (ListNamespace c ns (world r)) = Inl err"
  shows "updateCRDWithFileInfo c ns r =
    (if IsNotFound err
     then Returned None
            ((emit (LogPrintf ''No CRDs found to update in namespace %s'' [ArgStr ns])
               (emit (CallList (Some ns))
                 (emit (LogPrintf ''Updating CRDs with file information in namespace: %s''
                          [ArgStr ns]) r)))
             \<lparr>world := snd (ListNamespace c ns (world r))\<rparr>)
     else Returned (Some (Errorf ''failed to list CRDs for update: %v'' [ArgErr err]))
            ((emit (CallList (Some ns))
               (emit (LogPrintf ''Updating CRDs with file information in namespace: %s''
                        [ArgStr ns]) r))
             \<lparr>world := snd (ListNamespace c ns (world r))\<rparr>))"
  using assms by (simp add: updateCRDWithFileInfo_def Let_def call_eq emit_def)

lemma updateCRDWithFileInfo_empty:
  assumes "fst (ListNamespace c ns (world r)) = Inr []"
  shows "updateCRDWithFileInfo c ns r =
     Returned None
       ((emit (CallList (Some ns))
          (emit (LogPrintf ''Updating CRDs with file information in namespace: %s''
                   [ArgStr ns]) r))
        \<lparr>world := snd (ListNamespace c ns (world r))\<rparr>)"
  using assms by (simp add: updateCRDWithFileInfo_def Let_def call_eq)

lemma updateCRDWithFileInfo_nonempty:
  assumes "fst (ListNamespace c ns (world r)) = Inr (item # items)"
  shows "updateCRDWithFileInfo c ns r =
     Panicked ''cannot deep copy int''
       ((emit (LogPrintf ''Updating CRD: %s'' [ArgStr (GetName item)])
          (emit (CallList (Some ns))
            (emit (LogPrintf ''Updating CRDs with file information in namespace: %s''
                     [ArgStr ns]) r)))
        \<lparr>world := snd (Now c (snd (ListNamespace c ns (world r))))\<rparr>)"
  using assms by (simp add: updateCRDWithFileInfo_def Let_def call_eq items_Cons emit_def)

lemma updateCRDWithFileInfo_cases:
  obtains (failed) err where "fst (ListNamespace c ns (world r)) = Inl err"
  | (empty) "fst (ListNamespace c ns (world r)) = Inr []"
  | (nonempty) item items where "fst (ListNamespace c ns (world r)) = Inr (item # items)"
proof (cases "fst (ListNamespace c ns (world r))")
  case (Inl err)
  then show ?thesis by (rule failed)
next
  case (Inr xs)
  then show ?thesis by (cases xs) (auto intro: empty nonempty)
qed

lemma extends_updateCRDWithFileInfo: "extends r (final (updateCRDWithFileInfo c ns r))"
  by (cases rule: updateCRDWithFileInfo_cases[of c ns r])
     (simp_all add: updateCRDWithFileInfo_not_listed updateCRDWithFileInfo_empty
        updateCRDWithFileInfo_nonempty extends_emit_right)

lemma update_calls_updateCRDWithFileInfo:
  "update_calls (trace (final (updateCRDWithFileInfo c ns r))) = update_calls (trace r)"
  by (cases rule: updateCRDWithFileInfo_cases[of c ns r])
     (simp_all add: updateCRDWithFileInfo_not_listed updateCRDWithFileInfo_empty
        updateCRDWithFileInfo_nonempty)

lemma list_calls_updateCRDWithFileInfo:
  "list_calls (trace (final (updateCRDWithFileInfo c ns r))) = list_calls (trace r) @ [Some ns]"
  by (cases rule: updateCRDWithFileInfo_cases[of c ns r])
     (simp_all add: updateCRDWithFileInfo_not_listed updateCRDWithFileInfo_empty
        updateCRDWithFileInfo_nonempty)

lemma started_updateCRDWithFileInfo:
  "started (trace (final (updateCRDWithFileInfo c ns r))) =
     started (trace r) @
     (case fst (ListNamespace c ns (world r)) of
        Inr (item # items) \<Rightarrow> [GetName item]
      | _ \<Rightarrow> [])"
  by (cases rule: updateCRDWithFileInfo_cases[of c ns r])
     (simp_all add: updateCRDWithFileInfo_not_listed updateCRDWithFileInfo_empty
        updateCRDWithFileInfo_nonempty)

text \<open>The two query functions only list and log.\<close>

lemma extends_queryCRDs_items: "extends r (queryCRDs_items items r)"
proof (induction items arbitrary: r)
  case Nil
  show ?case by simp
next
  case (Cons item items)
  show ?case
    unfolding queryCRDs_items.simps Let_def
    by (rule extends_trans[OF _ Cons.IH]) (simp add: extends_emit_right split: prod.split)
qed

lemma update_calls_queryCRDs_items:
  "update_calls (trace (queryCRDs_items items r)) = update_calls (trace r)"
  by (induction items arbitrary: r) (simp_all add: Let_def split: prod.split)

lemma list_calls_queryCRDs_items:
  "list_calls (trace (queryCRDs_items items r)) = list_calls (trace r)"
  by (induction items arbitrary: r) (simp_all add: Let_def split: prod.split)

lemma started_queryCRDs_items:
  "started (trace (queryCRDs_items items r)) = started (trace r)"
  by (induction items arbitrary: r) (simp_all add: Let_def split: prod.split)

lemma extends_queryCRDsInNamespace_items: "extends r (queryCRDsInNamespace_items items r)"
proof (induction items arbitrary: r)
  case Nil
  show ?case by simp
next
  case (Cons item items)
  show ?case
    unfolding queryCRDsInNamespace_items.simps Let_def
    by (rule extends_trans[OF _ Cons.IH]) simp
qed

lemma update_calls_queryCRDsInNamespace_items:
  "update_calls (trace (queryCRDsInNamespace_items items r)) = update_calls (trace r)"
  by (induction items arbitrary: r) (simp_all add: Let_def)

lemma list_calls_queryCRDsInNamespace_items:
  "list_calls (trace (queryCRDsInNamespace_items items r)) = list_calls (trace r)"
  by (induction items arbitrary: r) (simp_all add: Let_def)

lemma started_queryCRDsInNamespace_items:
  "started (trace (queryCRDsInNamespace_items items r)) = started (trace r)"
  by (induction items arbitrary: r) (simp_all add: Let_def)

lemma extends_queryCRDs: "extends r (snd (queryCRDs c r))"
  by (auto simp: queryCRDs_def Let_def call_eq extends_emit_right
      intro!: extends_trans[OF _ extends_queryCRDs_items] split: sum.split)

lemma update_calls_queryCRDs:
  "update_calls (trace (snd (queryCRDs c r))) = update_calls (trace r)"
  by (simp add: queryCRDs_def Let_def call_eq update_calls_queryCRDs_items split: sum.split)

lemma list_calls_queryCRDs:
  "list_calls (trace (snd (queryCRDs c r))) = list_calls (trace r) @ [None]"
  by (simp add: queryCRDs_def Let_def call_eq list_calls_queryCRDs_items split: sum.split)

lemma started_queryCRDs: "started (trace (snd (queryCRDs c r))) = started (trace r)"
  by (simp add: queryCRDs_def Let_def call_eq started_queryCRDs_items split: sum.split)

lemma extends_queryCRDsInNamespace: "extends r (snd (queryCRDsInNamespace c ns r))"
  by (auto simp: queryCRDsInNamespace_def Let_def call_eq extends_emit_right
      intro!: extends_trans[OF _ extends_queryCRDsInNamespace_items] split: sum.split)

lemma update_calls_queryCRDsInNamespace:
  "update_calls (trace (snd (queryCRDsInNamespace c ns r))) = update_calls (trace r)"
  by (simp add: queryCRDsInNamespace_def Let_def call_eq update_calls_queryCRDsInNamespace_items
      split: sum.split)

lemma list_calls_queryCRDsInNamespace:
  "list_calls (trace (snd (queryCRDsInNamespace c ns r))) = list_calls (trace r) @ [Some ns]"
  by (simp add: queryCRDsInNamespace_def Let_def call_eq list_calls_queryCRDsInNamespace_items
      split: sum.split)

lemma started_queryCRDsInNamespace:
  "started (trace (snd (queryCRDsInNamespace c ns r))) = started (trace r)"
  by (simp add: queryCRDsInNamespace_def Let_def call_eq started_queryCRDsInNamespace_items
      split: sum.split)

text \<open>One cycle: the run up to the third call, and what the third call adds.\<close>

lemma extends_after_queryCRDsInNamespace: "extends r (after_queryCRDsInNamespace c r)"
proof -
  have "extends (emit (LogPrintln ''Querying CRDs...'') r) (after_queryCRDs c r)"
    using extends_queryCRDs[of "emit (LogPrintln ''Querying CRDs...'') r" c]
    by (auto simp: after_queryCRDs_def extends_emit_right split: prod.split option.split)
  then have a: "extends r (after_queryCRDs c r)" by (rule extends_trans[OF extends_emit])
  have "extends (after_queryCRDs c r) (after_queryCRDsInNamespace c r)"
    using extends_queryCRDsInNamespace[of "after_queryCRDs c r" c "''default''"]
    by (auto simp: after_queryCRDsInNamespace_def extends_emit_right split: prod.split option.split)
  then show ?thesis by (rule extends_trans[OF a])
qed

lemma list_calls_after_queryCRDsInNamespace:
  "list_calls (trace (after_queryCRDsInNamespace c r)) =
     list_calls (trace r) @ [None, Some ''default'']"
proof -
  have "list_calls (trace (after_queryCRDs c r)) = list_calls (trace r) @ [None]"
    using list_calls_queryCRDs[of c "emit (LogPrintln ''Querying CRDs...'') r"]
    by (auto simp: after_queryCRDs_def split: prod.split option.split)
  moreover have "list_calls (trace (after_queryCRDsInNamespace c r)) =
      list_calls (trace (after_queryCRDs c r)) @ [Some ''default'']"
    using list_calls_queryCRDsInNamespace[of c "''default''" "after_queryCRDs c r"]
    by (auto simp: after_queryCRDsInNamespace_def split: prod.split option.split)
  ultimately show ?thesis by simp
qed

lemma started_after_queryCRDsInNamespace:
  "started (trace (after_queryCRDsInNamespace c r)) = started (trace r)"
proof -
  have "started (trace (after_queryCRDs c r)) = started (trace r)"
    using started_queryCRDs[of c "emit (LogPrintln ''Querying CRDs...'') r"]
    by (auto simp: after_queryCRDs_def split: prod.split option.split)
  moreover have "started (trace (after_queryCRDsInNamespace c r)) =
      started (trace (after_queryCRDs c r))"
    using started_queryCRDsInNamespace[of c "''default''" "after_queryCRDs c r"]
    by (auto simp: after_queryCRDsInNamespace_def split: prod.split option.split)
  ultimately show ?thesis by simp
qed

lemma update_calls_after_queryCRDsInNamespace:
  "update_calls (trace (after_queryCRDsInNamespace c r)) = update_calls (trace r)"
proof -
  have "update_calls (trace (after_queryCRDs c r)) = update_calls (trace r)"
    using update_calls_queryCRDs[of c "emit (LogPrintln ''Querying CRDs...'') r"]
    by (auto simp: after_queryCRDs_def split: prod.split option.split)
  moreover have "update_calls (trace (after_queryCRDsInNamespace c r)) =
      update_calls (trace (after_queryCRDs c r))"
    using update_calls_queryCRDsInNamespace[of c "''default''" "after_queryCRDs c r"]
    by (auto simp: after_queryCRDsInNamespace_def split: prod.split option.split)
  ultimately show ?thesis by simp
qed

lemma main_cycle_eq:
  "main_cycle c r =
     (case updateCRDWithFileInfo c ''default'' (after_queryCRDsInNamespace c r) of
        Returned res r' \<Rightarrow>
          (let r3 = (case res of
                       Some err \<Rightarrow>
                         emit (LogPrintf ''Error updating CRD with file info: %v'' [ArgErr err]) r'
                     | None \<Rightarrow> r')
           in Returned () ((emit (CallSleep 30) r3)\<lparr>world := Sleep c 30 (world r3)\<rparr>))
      | Panicked msg r' \<Rightarrow> Panicked msg r'
      | Exited n r' \<Rightarrow> Exited n r')"
  by (simp add: main_cycle_def Let_def after_queryCRDsInNamespace_def after_queryCRDs_def)

lemma extends_main_cycle: "extends r (final (main_cycle c r))"
proof -
  let ?r2 = "after_queryCRDsInNamespace c r"
  have "extends ?r2 (final (main_cycle c r))"
    using extends_updateCRDWithFileInfo[of ?r2 c "''default''"]
    by (auto simp: main_cycle_eq Let_def extends_emit_right split: outcome.split option.split)
  then show ?thesis by (rule extends_trans[OF extends_after_queryCRDsInNamespace])
qed

lemma list_calls_main_cycle:
  "list_calls (trace (final (main_cycle c r))) =
     list_calls (trace r) @ [None, Some ''default'', Some ''default'']"
  using list_calls_updateCRDWithFileInfo[of c "''default''" "after_queryCRDsInNamespace c r"]
  by (auto simp: main_cycle_eq Let_def list_calls_after_queryCRDsInNamespace
      split: outcome.split option.split)

lemma started_main_cycle:
  "started (trace (final (main_cycle c r))) =
     started (trace r) @
     (case fst (ListNamespace c ''default'' (world (after_queryCRDsInNamespace c r))) of
        Inr (item # items) \<Rightarrow> [GetName item]
      | _ \<Rightarrow> [])"
  using started_updateCRDWithFileInfo[of c "''default''" "after_queryCRDsInNamespace c r"]
  by (auto simp: main_cycle_eq Let_def started_after_queryCRDsInNamespace
      split: outcome.split option.split)

lemma update_calls_main_cycle:
  "update_calls (trace (final (main_cycle c r))) = update_calls (trace r)"
  using update_calls_updateCRDWithFileInfo[of c "''default''" "after_queryCRDsInNamespace c r"]
  by (auto simp: main_cycle_eq Let_def update_calls_after_queryCRDsInNamespace
      split: outcome.split option.split)

text \<open>No run of the loop of \<open>main\<close> ever submits a status update.\<close>

lemma update_calls_main_loop:
  "update_calls (trace (final (main_loop c n r))) = update_calls (trace r)"
proof (induction n arbitrary: r)
  case 0
  show ?case by simp
next
  case (Suc n)
  show ?case
    using update_calls_main_cycle[of c r] Suc.IH
    by (cases "main_cycle c r") simp_all
qed

section \<open>Claims\<close>

text \<open>
  C1 (the code at a failing input). The claim says the status written back holds
  the metadata of the objects found under the record's declared root path. For a
  record that declares \<open>/var/log\<close> the code builds its fixed example slice, which
  names \<open>/tmp/example.txt\<close>, and panics while setting it: no status is written, the
  store is left as it was and the function does not return.
\<close>

theorem example_slice_panics_before_status_is_written:
  "updateCRDWithFileInfo (fake_client None (\<lambda>obj. None) ''2025-01-13T10:00:00Z'') ''default''
     (start [monitor ''logs'' ''default'' ''/var/log'']) =
   Panicked ''cannot deep copy int''
     \<lparr>world = [monitor ''logs'' ''default'' ''/var/log''],
      trace = [LogPrintf ''Updating CRDs with file information in namespace: %s''
                 [ArgStr ''default''],
               CallList (Some ''default''),
               LogPrintf ''Updating CRD: %s'' [ArgStr ''logs'']]\<rparr>"
  by code_simp

text \<open>
  C3 (the code at a failing input). The claim says that a record whose root path
  does not exist ends its attempt with a scan failure and is left alone while the
  process goes on. The code never looks at the path: for a record that declares
  \<open>/does/not/exist\<close> the cycle starts on the record like on any other and ends in
  the panic; no status update is submitted and the store is unchanged, but the
  outcome is the end of the process, not a failed attempt.
\<close>

theorem missing_path_ends_in_panic:
  "panic_of (main_cycle (fake_client None (\<lambda>obj. None) ''2025-01-13T10:00:00Z'')
               (start [monitor ''gone'' ''default'' ''/does/not/exist''])) =
     Some ''cannot deep copy int''
   \<and> started (trace (final (main_cycle (fake_client None (\<lambda>obj. None) ''2025-01-13T10:00:00Z'')
               (start [monitor ''gone'' ''default'' ''/does/not/exist''])))) = [''gone'']
   \<and> update_calls (trace (final (main_cycle (fake_client None (\<lambda>obj. None) ''2025-01-13T10:00:00Z'')
               (start [monitor ''gone'' ''default'' ''/does/not/exist''])))) = []
   \<and> world (final (main_cycle (fake_client None (\<lambda>obj. None) ''2025-01-13T10:00:00Z'')
               (start [monitor ''gone'' ''default'' ''/does/not/exist'']))) =
     [monitor ''gone'' ''default'' ''/does/not/exist'']"
  by code_simp

text \<open>
  C7 (amended). In every cycle the store is listed three times: all namespaces,
  then namespace \<open>default\<close>, then namespace \<open>default\<close> again by
  \<open>updateCRDWithFileInfo\<close>, which lists its namespace once and takes up only records
  of that listing. So only records listed in namespace \<open>default\<close> are ever taken
  up for update; records of other namespaces are listed and logged and nothing more.
\<close>

theorem only_listed_namespace_is_taken_up:
  "list_calls (performed r (final (main_cycle c r))) = [None, Some ''default'', Some ''default'']
   \<and> list_calls (performed r (final (updateCRDWithFileInfo c ns r))) = [Some ns]
   \<and> (fst (ListNamespace c ns (world r)) = Inr items \<longrightarrow>
        set (started (performed r (final (updateCRDWithFileInfo c ns r)))) \<subseteq> GetName ` set items)
   \<and> (fst (ListNamespace c ''default'' (world (after_queryCRDsInNamespace c r))) = Inr items' \<longrightarrow>
        set (started (performed r (final (main_cycle c r)))) \<subseteq> GetName ` set items')"
proof -
  have 1: "list_calls (performed r (final (main_cycle c r))) =
      [None, Some ''default'', Some ''default'']"
    using list_calls_performed[OF extends_main_cycle[of r c]] list_calls_main_cycle[of c r]
    by simp
  have 2: "list_calls (performed r (final (updateCRDWithFileInfo c ns r))) = [Some ns]"
    using list_calls_performed[OF extends_updateCRDWithFileInfo[of r c ns]]
      list_calls_updateCRDWithFileInfo[of c ns r]
    by simp
  have 3: "started (performed r (final (updateCRDWithFileInfo c ns r))) =
      (case fst (ListNamespace c ns (world r)) of Inr (item # xs) \<Rightarrow> [GetName item] | _ \<Rightarrow> [])"
    using started_performed[OF extends_updateCRDWithFileInfo[of r c ns]]
      started_updateCRDWithFileInfo[of c ns r]
    by simp
  have 4: "started (performed r (final (main_cycle c r))) =
      (case fst (ListNamespace c ''default'' (world (after_queryCRDsInNamespace c r))) of
         Inr (item # xs) \<Rightarrow> [GetName item] | _ \<Rightarrow> [])"
    using started_performed[OF extends_main_cycle[of r c]] started_main_cycle[of c r]
    by simp
  show ?thesis
    unfolding 1 2 3 4 by (auto split: list.split)
qed

theorem only_listed_namespace_is_taken_up_witness:
  "fst (ListNamespace (fake_client None (\<lambda>obj. None) ''2025-01-13T10:00:00Z'') ''default''
          (world (start [monitor ''m'' ''default'' ''/var/log'', monitor ''p'' ''prod'' ''/srv'']))) =
      Inr [monitor ''m'' ''default'' ''/var/log'']
   \<and> fst (ListNamespace (fake_client None (\<lambda>obj. None) ''2025-01-13T10:00:00Z'') ''default''
          (world (after_queryCRDsInNamespace
             (fake_client None (\<lambda>obj. None) ''2025-01-13T10:00:00Z'')
             (start [monitor ''m'' ''default'' ''/var/log'', monitor ''p'' ''prod'' ''/srv''])))) =
      Inr [monitor ''m'' ''default'' ''/var/log'']
   \<and> set (started (performed
          (start [monitor ''m'' ''default'' ''/var/log'', monitor ''p'' ''prod'' ''/srv''])
          (final (main_cycle (fake_client None (\<lambda>obj. None) ''2025-01-13T10:00:00Z'')
             (start [monitor ''m'' ''default'' ''/var/log'', monitor ''p'' ''prod'' ''/srv'']))))) \<subseteq>
       GetName ` set [monitor ''m'' ''default'' ''/var/log'']
   \<and> started (performed
          (start [monitor ''m'' ''default'' ''/var/log'', monitor ''p'' ''prod'' ''/srv''])
          (final (main_cycle (fake_client None (\<lambda>obj. None) ''2025-01-13T10:00:00Z'')
             (start [monitor ''m'' ''default'' ''/var/log'', monitor ''p'' ''prod'' ''/srv''])))) = [''m'']
   \<and> list_calls (performed
          (start [monitor ''m'' ''default'' ''/var/log'', monitor ''p'' ''prod'' ''/srv''])
          (final (main_cycle (fake_client None (\<lambda>obj. None) ''2025-01-13T10:00:00Z'')
             (start [monitor ''m'' ''default'' ''/var/log'', monitor ''p'' ''prod'' ''/srv''])))) =
       [None, Some ''default'', Some ''default'']"
proof -
  let ?c = "fake_client None (\<lambda>obj. None) ''2025-01-13T10:00:00Z''"
  let ?m = "monitor ''m'' ''default'' ''/var/log''"
  let ?w = "[?m, monitor ''p'' ''prod'' ''/srv'']"
  have h1: "fst (ListNamespace ?c ''default'' (world (start ?w))) = Inr [?m]"
    by code_simp
  have h2: "fst (ListNamespace ?c ''default'' (world (after_queryCRDsInNamespace ?c (start ?w)))) =
      Inr [?m]"
    by code_simp
  have s: "started (performed (start ?w) (final (main_cycle ?c (start ?w)))) = [''m'']"
    by code_simp
  from only_listed_namespace_is_taken_up[of "start ?w" ?c "''default''" "[?m]" "[?m]"] h1 h2 s
  show ?thesis by simp
qed

theorem other_namespace_is_not_taken_up_counterexample:
  "LogPrintf ''CRD: %s in namespace: %s'' [ArgStr ''p'', ArgStr ''prod'']
     \<in> set (trace (final (main_cycle (fake_client None (\<lambda>obj. None) ''2025-01-13T10:00:00Z'')
          (start [monitor ''p'' ''prod'' ''/srv'']))))
   \<and> started (trace (final (main_cycle (fake_client None (\<lambda>obj. None) ''2025-01-13T10:00:00Z'')
          (start [monitor ''p'' ''prod'' ''/srv''])))) = []
   \<and> returned (main_cycle (fake_client None (\<lambda>obj. None) ''2025-01-13T10:00:00Z'')
          (start [monitor ''p'' ''prod'' ''/srv''])) = Some ()
   \<and> sleeps (trace (final (main_cycle (fake_client None (\<lambda>obj. None) ''2025-01-13T10:00:00Z'')
          (start [monitor ''p'' ''prod'' ''/srv''])))) = [30]"
  by code_simp

text \<open>
  C8 (the code at a failing input). The claim says that a failure on one record
  neither keeps the other records of the cycle from being processed nor ends the
  process. With two records \<open>a\<close> and \<open>b\<close> in namespace \<open>default\<close> the first pass
  starts on \<open>a\<close> and panics: \<open>b\<close> is never started, the pass never reaches its sleep
  and the process has ended, however many passes were to follow.
\<close>

theorem first_record_ends_the_process:
  "panic_of (main_loop (fake_client None (\<lambda>obj. None) ''2025-01-13T10:00:00Z'') 3
               (start [monitor ''a'' ''default'' ''/var/log'', monitor ''b'' ''default'' ''/etc''])) =
     Some ''cannot deep copy int''
   \<and> started (trace (final (main_loop (fake_client None (\<lambda>obj. None) ''2025-01-13T10:00:00Z'') 3
               (start [monitor ''a'' ''default'' ''/var/log'', monitor ''b'' ''default'' ''/etc''])))) =
     [''a'']
   \<and> sleeps (trace (final (main_loop (fake_client None (\<lambda>obj. None) ''2025-01-13T10:00:00Z'') 3
               (start [monitor ''a'' ''default'' ''/var/log'', monitor ''b'' ''default'' ''/etc''])))) =
     []"
  by code_simp

text \<open>
  C9. When the listing call fails with a NotFound error, each of \<open>queryCRDs\<close>,
  \<open>queryCRDsInNamespace\<close> and \<open>updateCRDWithFileInfo\<close> logs the condition and
  returns nil, the same result it returns for a store with no records; every other
  listing error is returned wrapped as a failure.
\<close>

theorem listing_not_found_returns_nil:
  "(fst (ListAll c (world r)) = Inl err \<longrightarrow>
      (if IsNotFound err
       then fst (queryCRDs c r) = None \<and>
            performed r (snd (queryCRDs c r)) =
              [LogPrintln ''Querying CRDs in all namespaces...'', CallList None,
               LogPrintln ''CRD not found - it may not be installed yet'']
       else fst (queryCRDs c r) = Some (Errorf ''failed to list CRDs: %v'' [ArgErr err])))
   \<and> (fst (ListNamespace c ns (world r)) = Inl err \<longrightarrow>
      (if IsNotFound err
       then fst (queryCRDsInNamespace c ns r) = None \<and>
            performed r (snd (queryCRDsInNamespace c ns r)) =
              [LogPrintf ''Querying CRDs in namespace: %s'' [ArgStr ns], CallList (Some ns),
               LogPrintf ''No CRDs found in namespace %s'' [ArgStr ns]] \<and>
            returned (updateCRDWithFileInfo c ns r) = Some None \<and>
            performed r (final (updateCRDWithFileInfo c ns r)) =
              [LogPrintf ''Updating CRDs with file information in namespace: %s'' [ArgStr ns],
               CallList (Some ns),
               LogPrintf ''No CRDs found to update in namespace %s'' [ArgStr ns]]
       else fst (queryCRDsInNamespace c ns r) =
              Some (Errorf ''failed to list CRDs in namespace %s: %v'' [ArgStr ns, ArgErr err]) \<and>
            returned (updateCRDWithFileInfo c ns r) =
              Some (Some (Errorf ''failed to list CRDs for update: %v'' [ArgErr err]))))
   \<and> (fst (ListAll c (world r)) = Inr [] \<longrightarrow> fst (queryCRDs c r) = None)
   \<and> (fst (ListNamespace c ns (world r)) = Inr [] \<longrightarrow>
        fst (queryCRDsInNamespace c ns r) = None \<and>
        returned (updateCRDWithFileInfo c ns r) = Some None)"
  by (simp add: queryCRDs_def queryCRDsInNamespace_def updateCRDWithFileInfo_def Let_def call_eq
      performed_def)

theorem listing_not_found_returns_nil_witness:
  "fst (ListAll (fake_client (Some (StatusError StatusReasonNotFound 404)) (\<lambda>obj. None) ''2025-01-13T10:00:00Z'')
          (world (start [monitor ''logs'' ''default'' ''/var/log'']))) = Inl (StatusError StatusReasonNotFound 404)
   \<and> fst (ListNamespace (fake_client (Some (StatusError StatusReasonNotFound 404)) (\<lambda>obj. None) ''2025-01-13T10:00:00Z'')
          ''default'' (world (start [monitor ''logs'' ''default'' ''/var/log'']))) = Inl (StatusError StatusReasonNotFound 404)
   \<and> IsNotFound (StatusError StatusReasonNotFound 404)
   \<and> fst (queryCRDs (fake_client (Some (StatusError StatusReasonNotFound 404)) (\<lambda>obj. None) ''2025-01-13T10:00:00Z'')
          (start [monitor ''logs'' ''default'' ''/var/log''])) = None
   \<and> fst (queryCRDsInNamespace (fake_client (Some (StatusError StatusReasonNotFound 404)) (\<lambda>obj. None) ''2025-01-13T10:00:00Z'')
          ''default'' (start [monitor ''logs'' ''default'' ''/var/log''])) = None
   \<and> returned (updateCRDWithFileInfo (fake_client (Some (StatusError StatusReasonNotFound 404)) (\<lambda>obj. None) ''2025-01-13T10:00:00Z'')
          ''default'' (start [monitor ''logs'' ''default'' ''/var/log''])) = Some None
   \<and> fst (ListAll (fake_client (Some (StatusError StatusReasonForbidden 403)) (\<lambda>obj. None) ''2025-01-13T10:00:00Z'')
          (world (start []))) = Inl (StatusError StatusReasonForbidden 403)
   \<and> fst (queryCRDs (fake_client (Some (StatusError StatusReasonForbidden 403)) (\<lambda>obj. None) ''2025-01-13T10:00:00Z'')
          (start [])) = Some (Errorf ''failed to list CRDs: %v'' [ArgErr (StatusError StatusReasonForbidden 403)])
   \<and> fst (ListAll (fake_client None (\<lambda>obj. None) ''2025-01-13T10:00:00Z'') (world (start []))) = Inr []
   \<and> fst (ListNamespace (fake_client None (\<lambda>obj. None) ''2025-01-13T10:00:00Z'') ''default''
          (world (start []))) = Inr []
   \<and> fst (queryCRDs (fake_client None (\<lambda>obj. None) ''2025-01-13T10:00:00Z'') (start [])) = None
   \<and> returned (updateCRDWithFileInfo (fake_client None (\<lambda>obj. None) ''2025-01-13T10:00:00Z'') ''default''
          (start [])) = Some None"
proof -
  let ?e = "fake_client None (\<lambda>obj. None) ''2025-01-13T10:00:00Z''"
  have h5: "fst (ListAll ?e (world (start []))) = Inr []"
    by (simp add: fake_client_def start_def)
  have h6: "fst (ListNamespace ?e ''default'' (world (start []))) = Inr []"
    by (simp add: fake_client_def start_def)
  have empty: "fst (queryCRDs ?e (start [])) = None \<and>
      returned (updateCRDWithFileInfo ?e ''default'' (start [])) = Some None"
    using listing_not_found_returns_nil[of ?e "start []" _ "''default''"] h5 h6 by simp
  let ?d = "fake_client (Some (StatusError StatusReasonForbidden 403)) (\<lambda>obj. None) ''2025-01-13T10:00:00Z''"
  have h4: "fst (ListAll ?d (world (start []))) = Inl (StatusError StatusReasonForbidden 403)"
    by (simp add: fake_client_def)
  have other: "fst (queryCRDs ?d (start [])) =
      Some (Errorf ''failed to list CRDs: %v'' [ArgErr (StatusError StatusReasonForbidden 403)])"
    using listing_not_found_returns_nil[of ?d "start []" "StatusError StatusReasonForbidden 403" "''default''"] h4
    by simp
  let ?c = "fake_client (Some (StatusError StatusReasonNotFound 404)) (\<lambda>obj. None) ''2025-01-13T10:00:00Z''"
  let ?r = "start [monitor ''logs'' ''default'' ''/var/log'']"
  have h1: "fst (ListAll ?c (world ?r)) = Inl (StatusError StatusReasonNotFound 404)"
    by (simp add: fake_client_def)
  have h2: "fst (ListNamespace ?c ''default'' (world ?r)) = Inl (StatusError StatusReasonNotFound 404)"
    by (simp add: fake_client_def)
  have h3: "IsNotFound (StatusError StatusReasonNotFound 404)" by simp
  from listing_not_found_returns_nil[of ?c ?r "StatusError StatusReasonNotFound 404" "''default''"]
    h1 h2 h3 h4 other h5 h6 empty
  show ?thesis by simp
qed



end
